theory Spec2Isabelle
  imports Complex_Main
begin

section \<open>JavaScript numbers\<close>

text \<open>
  The component computes with JavaScript numbers. They are modelled as exact rationals
  extended with the three special values of the language: \<open>Infinity\<close>, \<open>-Infinity\<close> and
  \<open>NaN\<close>. Rounding and overflow of the 64-bit format are outside the model, and zero is
  the positive zero (a difference \<open>a - a\<close> is \<open>+0\<close>), so \<open>c / 0\<close> is \<open>Infinity\<close> for
  positive \<open>c\<close>. Division by zero, \<open>Infinity - Infinity\<close> and \<open>0 * Infinity\<close> give the
  values the language gives, not the value HOL's total division would.
\<close>

datatype jsnum = Fin rat | PosInf | NegInf | NaN

instantiation jsnum :: "{uminus, plus, minus, times, inverse, ord}"
begin

fun uminus_jsnum :: "jsnum \<Rightarrow> jsnum" where
  "uminus_jsnum (Fin a) = Fin (- a)"
| "uminus_jsnum PosInf = NegInf"
| "uminus_jsnum NegInf = PosInf"
| "uminus_jsnum NaN = NaN"

fun plus_jsnum :: "jsnum \<Rightarrow> jsnum \<Rightarrow> jsnum" where
  "plus_jsnum NaN _ = NaN"
| "plus_jsnum _ NaN = NaN"
| "plus_jsnum (Fin a) (Fin b) = Fin (a + b)"
| "plus_jsnum PosInf NegInf = NaN"
| "plus_jsnum NegInf PosInf = NaN"
| "plus_jsnum PosInf _ = PosInf"
| "plus_jsnum _ PosInf = PosInf"
| "plus_jsnum NegInf _ = NegInf"
| "plus_jsnum _ NegInf = NegInf"

definition minus_jsnum :: "jsnum \<Rightarrow> jsnum \<Rightarrow> jsnum" where
  "minus_jsnum a b = a + (- b)"

text \<open>The sign of a number that is not \<open>NaN\<close>, zero counting as positive.\<close>

fun negative :: "jsnum \<Rightarrow> bool" where
  "negative (Fin a) = (a < 0)"
| "negative NegInf = True"
| "negative _ = False"

fun times_jsnum :: "jsnum \<Rightarrow> jsnum \<Rightarrow> jsnum" where
  "times_jsnum NaN _ = NaN"
| "times_jsnum _ NaN = NaN"
| "times_jsnum (Fin a) (Fin b) = Fin (a * b)"
| "times_jsnum (Fin a) b =
     (if a = 0 then NaN else if (a < 0) = negative b then PosInf else NegInf)"
| "times_jsnum a (Fin b) =
     (if b = 0 then NaN else if negative a = (b < 0) then PosInf else NegInf)"
| "times_jsnum a b = (if negative a = negative b then PosInf else NegInf)"

fun divide_jsnum :: "jsnum \<Rightarrow> jsnum \<Rightarrow> jsnum" where
  "divide_jsnum NaN _ = NaN"
| "divide_jsnum _ NaN = NaN"
| "divide_jsnum (Fin a) (Fin b) =
     (if b \<noteq> 0 then Fin (a / b)
      else if a = 0 then NaN else if a < 0 then NegInf else PosInf)"
| "divide_jsnum (Fin a) _ = Fin 0"
| "divide_jsnum a (Fin b) = (if negative a = (b < 0) then PosInf else NegInf)"
| "divide_jsnum _ _ = NaN"

definition inverse_jsnum :: "jsnum \<Rightarrow> jsnum" where
  "inverse_jsnum a = divide (Fin 1) a"

text \<open>Comparisons: every comparison with \<open>NaN\<close> is false.\<close>

fun less_jsnum :: "jsnum \<Rightarrow> jsnum \<Rightarrow> bool" where
  "less_jsnum NaN _ = False"
| "less_jsnum _ NaN = False"
| "less_jsnum (Fin a) (Fin b) = (a < b)"
| "less_jsnum _ NegInf = False"
| "less_jsnum NegInf _ = True"
| "less_jsnum PosInf _ = False"
| "less_jsnum _ PosInf = True"

fun less_eq_jsnum :: "jsnum \<Rightarrow> jsnum \<Rightarrow> bool" where
  "less_eq_jsnum NaN _ = False"
| "less_eq_jsnum _ NaN = False"
| "less_eq_jsnum (Fin a) (Fin b) = (a \<le> b)"
| "less_eq_jsnum NegInf _ = True"
| "less_eq_jsnum _ NegInf = False"
| "less_eq_jsnum _ PosInf = True"
| "less_eq_jsnum PosInf _ = False"

instance ..

end

text \<open>
  \<open>Math.min\<close> and \<open>Math.max\<close> take any number of arguments: the result is \<open>NaN\<close> as
  soon as one argument is, and \<open>Infinity\<close> (\<open>-Infinity\<close>) for no argument.
\<close>

fun min_loop :: "jsnum \<Rightarrow> jsnum list \<Rightarrow> jsnum" where
  "min_loop lowest [] = lowest"
| "min_loop lowest (n # ns) =
     (if n = NaN then NaN else min_loop (if n < lowest then n else lowest) ns)"

definition Math_min :: "jsnum list \<Rightarrow> jsnum" where
  "Math_min ns = min_loop PosInf ns"

fun max_loop :: "jsnum \<Rightarrow> jsnum list \<Rightarrow> jsnum" where
  "max_loop highest [] = highest"
| "max_loop highest (n # ns) =
     (if n = NaN then NaN else max_loop (if highest < n then n else highest) ns)"

definition Math_max :: "jsnum list \<Rightarrow> jsnum" where
  "Math_max ns = max_loop NegInf ns"

section \<open>Data of the minimap component\<close>

text \<open>An \<open>HTMLCanvasElement\<close>: its dimensions are unsigned integers.\<close>

record Canvas =
  width :: nat
  height :: nat

text \<open>The memoised \<open>sceneBounds\<close> object.\<close>

record SceneBounds =
  minX :: jsnum
  minY :: jsnum
  maxX :: jsnum
  maxY :: jsnum
  width :: jsnum
  height :: jsnum

text \<open>A pair \<open>{ x, y }\<close>, as in \<open>dragStartRef\<close> and \<open>appState.minimapPosition\<close>.\<close>

record Point =
  pt_x :: jsnum
  pt_y :: jsnum

text \<open>
  The fields of the application state that the component and the action read or write;
  \<open>zoom_value\<close> is \<open>appState.zoom.value\<close>. Every other field of the host's state lives
  in the extension part of the record.
\<close>

record AppState =
  scrollX :: jsnum
  scrollY :: jsnum
  zoom_value :: jsnum
  width :: jsnum
  height :: jsnum
  showMinimap :: bool
  minimapPosition :: Point

text \<open>
  The component's own state: the \<open>minimapCanvas\<close> state variable and its refs. A timer
  handle is a number.
\<close>

record MinimapState =
  minimapCanvas :: "Canvas option"
  debounceTimerRef :: "nat option"
  isDraggingRef :: bool
  isDraggingMinimapRef :: bool
  dragStartRef :: Point

text \<open>
  What the handlers read from the browser: the pointer position of a mouse event, the
  origin of the preview canvas's bounding rectangle, and the size of the window. These
  attributes are finite numbers, the window's an integer.
\<close>

record MouseEvent =
  clientX :: rat
  clientY :: rat

record DOMRect =
  dom_left :: rat
  dom_top :: rat

record Window =
  innerWidth :: int
  innerHeight :: int

text \<open>The rectangle \<open>{ x, y, width, height }\<close> returned by \<open>viewportRect\<close>.\<close>

record Rect =
  rect_x :: jsnum
  rect_y :: jsnum
  rect_width :: jsnum
  rect_height :: jsnum

definition MINIMAP_SIZE :: jsnum where
  "MINIMAP_SIZE = Fin 150"

definition DEBOUNCE_DELAY :: nat where
  "DEBOUNCE_DELAY = 300"

section \<open>Scene bounds and scale\<close>

text \<open>
  \<open>getCommonBounds\<close> belongs to the element package; it is a parameter here. It returns
  the tuple \<open>[minX, minY, maxX, maxY]\<close>.
\<close>

definition sceneBounds ::
  "('e list \<Rightarrow> jsnum \<times> jsnum \<times> jsnum \<times> jsnum) \<Rightarrow> 'e list \<Rightarrow> SceneBounds option" where
  "sceneBounds getCommonBounds elements =
     (if length elements = 0 then None
      else (case getCommonBounds elements of (x1, y1, x2, y2) \<Rightarrow>
        Some \<lparr>minX = x1, minY = y1, maxX = x2, maxY = y2,
              SceneBounds.width = x2 - x1, SceneBounds.height = y2 - y1\<rparr>))"

definition minimapScale :: "SceneBounds option \<Rightarrow> jsnum" where
  "minimapScale bounds =
     (case bounds of
        None \<Rightarrow> Fin 1
      | Some b \<Rightarrow>
          (let scaleX = MINIMAP_SIZE / SceneBounds.width b;
               scaleY = MINIMAP_SIZE / SceneBounds.height b
           in Math_min [scaleX, scaleY, Fin 1]))"

section \<open>Coordinate mapping\<close>

text \<open>
  The scene-to-minimap expression of \<open>viewportRect\<close>, \<open>(p - sceneBounds.min) * scale\<close>,
  and the minimap-to-scene expression of \<open>handleCanvasMouseDown\<close>,
  \<open>q / scale + sceneBounds.min\<close>.
\<close>

definition forwardMapping :: "jsnum \<Rightarrow> jsnum \<Rightarrow> jsnum \<Rightarrow> jsnum" where
  "forwardMapping p boundsMin scale = (p - boundsMin) * scale"

definition inverseMapping :: "jsnum \<Rightarrow> jsnum \<Rightarrow> jsnum \<Rightarrow> jsnum" where
  "inverseMapping q boundsMin scale = q / scale + boundsMin"

definition viewportRect ::
  "Canvas option \<Rightarrow> SceneBounds option \<Rightarrow> 'a AppState_scheme \<Rightarrow> Rect option" where
  "viewportRect canvas bounds appState =
     (case (canvas, bounds) of
        (Some _, Some b) \<Rightarrow>
          (let scale = minimapScale bounds;
               viewportWidth = AppState.width appState / zoom_value appState;
               viewportHeight = AppState.height appState / zoom_value appState;
               viewportMinX = - scrollX appState;
               viewportMinY = - scrollY appState;
               viewportMaxX = viewportMinX + viewportWidth;
               viewportMaxY = viewportMinY + viewportHeight;
               minimapViewportMinX = forwardMapping viewportMinX (minX b) scale;
               minimapViewportMinY = forwardMapping viewportMinY (minY b) scale;
               minimapViewportMaxX = forwardMapping viewportMaxX (minX b) scale;
               minimapViewportMaxY = forwardMapping viewportMaxY (minY b) scale
           in Some \<lparr>rect_x = minimapViewportMinX, rect_y = minimapViewportMinY,
                    rect_width = minimapViewportMaxX - minimapViewportMinX,
                    rect_height = minimapViewportMaxY - minimapViewportMinY\<rparr>)
      | _ \<Rightarrow> None)"

section \<open>Pointer handlers of the preview canvas\<close>

text \<open>
  A handler takes the values its closure holds (the scene bounds of the current render,
  the bounding rectangle of \<open>canvasRef.current\<close> when the canvas is mounted) and the
  event, and maps the component state and the application state to the updated pair;
  \<open>setAppState\<close> with a partial object is a record update. \<open>minimapScale\<close> is the
  memoised value of the same render, hence computed from the same bounds.
\<close>

definition handleCanvasMouseDown ::
  "SceneBounds option \<Rightarrow> DOMRect option \<Rightarrow> MouseEvent
     \<Rightarrow> MinimapState \<times> 'a AppState_scheme \<Rightarrow> MinimapState \<times> 'a AppState_scheme" where
  "handleCanvasMouseDown bounds canvasRect event = (\<lambda>(st, appState).
     case (minimapCanvas st, bounds) of
       (Some mc, Some b) \<Rightarrow>
         (let st' = st\<lparr>isDraggingRef := True,
                        dragStartRef := \<lparr>pt_x = Fin (clientX event), pt_y = Fin (clientY event)\<rparr>\<rparr>
          in case canvasRect of
               None \<Rightarrow> (st', appState)
             | Some rect \<Rightarrow>
                 (let scale = minimapScale bounds;
                      clickX = Fin (clientX event) - Fin (dom_left rect);
                      clickY = Fin (clientY event) - Fin (dom_top rect);
                      offsetX = Math_max
                        [Fin 0, (MINIMAP_SIZE - Fin (of_nat (Canvas.width mc))) / Fin 2];
                      offsetY = Math_max
                        [Fin 0, (MINIMAP_SIZE - Fin (of_nat (Canvas.height mc))) / Fin 2];
                      adjustedClickX = clickX - offsetX;
                      adjustedClickY = clickY - offsetY;
                      sceneX = inverseMapping adjustedClickX (minX b) scale;
                      sceneY = inverseMapping adjustedClickY (minY b) scale;
                      viewportWidth = AppState.width appState / zoom_value appState;
                      viewportHeight = AppState.height appState / zoom_value appState;
                      newScrollX = - (sceneX - viewportWidth / Fin 2);
                      newScrollY = - (sceneY - viewportHeight / Fin 2)
                  in (st', appState\<lparr>scrollX := newScrollX, scrollY := newScrollY\<rparr>)))
     | _ \<Rightarrow> (st, appState))"

definition handleCanvasMouseMove ::
  "SceneBounds option \<Rightarrow> DOMRect option \<Rightarrow> MouseEvent
     \<Rightarrow> MinimapState \<times> 'a AppState_scheme \<Rightarrow> MinimapState \<times> 'a AppState_scheme" where
  "handleCanvasMouseMove bounds canvasRect event = (\<lambda>(st, appState).
     if \<not> isDraggingRef st \<or> minimapCanvas st = None \<or> bounds = None then (st, appState)
     else case canvasRect of
       None \<Rightarrow> (st, appState)
     | Some rect \<Rightarrow>
         (let scale = minimapScale bounds;
              deltaX = Fin (clientX event) - pt_x (dragStartRef st);
              deltaY = Fin (clientY event) - pt_y (dragStartRef st);
              sceneDeltaX = deltaX / scale;
              sceneDeltaY = deltaY / scale
          in (st\<lparr>dragStartRef := \<lparr>pt_x = Fin (clientX event), pt_y = Fin (clientY event)\<rparr>\<rparr>,
              appState\<lparr>scrollX := scrollX appState - sceneDeltaX,
                        scrollY := scrollY appState - sceneDeltaY\<rparr>)))"

definition handleCanvasMouseUp :: "MinimapState \<Rightarrow> MinimapState" where
  "handleCanvasMouseUp st = st\<lparr>isDraggingRef := False\<rparr>"

section \<open>Repositioning the widget\<close>

text \<open>
  \<open>handleMinimapMouseDown\<close> starts the drag when the event target lies in the header
  (\<open>onHeader\<close>) and installs the two document listeners, which are the next two
  functions. The locals \<open>maxX\<close> and \<open>maxY\<close> of the move listener are \<open>limitX\<close> and
  \<open>limitY\<close> here, the source's names being fields of the scene bounds.
\<close>

definition handleMinimapMouseDown ::
  "bool \<Rightarrow> MouseEvent \<Rightarrow> MinimapState \<times> 'a AppState_scheme
     \<Rightarrow> MinimapState \<times> 'a AppState_scheme" where
  "handleMinimapMouseDown onHeader event = (\<lambda>(st, appState).
     if \<not> onHeader then (st, appState)
     else (st\<lparr>isDraggingMinimapRef := True,
               dragStartRef :=
                 \<lparr>pt_x = Fin (clientX event) - pt_x (minimapPosition appState),
                  pt_y = Fin (clientY event) - pt_y (minimapPosition appState)\<rparr>\<rparr>,
           appState))"

definition handleGlobalMouseMove ::
  "Window \<Rightarrow> MouseEvent \<Rightarrow> MinimapState \<times> 'a AppState_scheme
     \<Rightarrow> MinimapState \<times> 'a AppState_scheme" where
  "handleGlobalMouseMove window e = (\<lambda>(st, appState).
     if \<not> isDraggingMinimapRef st then (st, appState)
     else
       (let newX = Fin (clientX e) - pt_x (dragStartRef st);
            newY = Fin (clientY e) - pt_y (dragStartRef st);
            padding = Fin 10;
            limitX = Fin (of_int (innerWidth window)) - Fin 200 - padding;
            limitY = Fin (of_int (innerHeight window)) - Fin 200 - padding
        in (st, appState\<lparr>minimapPosition :=
                  \<lparr>pt_x = Math_max [padding, Math_min [newX, limitX]],
                   pt_y = Math_max [padding, Math_min [newY, limitY]]\<rparr>\<rparr>)))"

definition handleGlobalMouseUp :: "MinimapState \<Rightarrow> MinimapState" where
  "handleGlobalMouseUp st = st\<lparr>isDraggingMinimapRef := False\<rparr>"


section \<open>Regenerating the preview bitmap\<close>

text \<open>
  \<open>exportToCanvas\<close> belongs to the utilities package; it is a parameter here. A call
  either throws or returns a canvas, which the caller tests for being null. The callback
  \<open>getDimensions\<close> ignores its arguments, so the call is given the object it returns.
\<close>

datatype 'c completion = Normal 'c | Throw string

record Dimensions =
  dim_width :: jsnum
  dim_height :: jsnum
  dim_scale :: jsnum

definition getDimensions :: "SceneBounds \<Rightarrow> jsnum \<Rightarrow> Dimensions" where
  "getDimensions b scale =
     \<lparr>dim_width = Math_max [Fin 1, SceneBounds.width b * scale],
      dim_height = Math_max [Fin 1, SceneBounds.height b * scale],
      dim_scale = scale\<rparr>"

text \<open>
  What \<open>updateMinimap\<close> does besides returning, in order: the call of the export
  routine with its arguments, the console messages, and the calls of the state setter.
\<close>

datatype ('e, 'a) effect =
    ExportToCanvas "'e list" "'a AppState_scheme" Dimensions
  | ConsoleWarn
  | ConsoleError string
  | SetMinimapCanvas "Canvas option"

type_synonym ('e, 'a) exporter =
  "'e list \<Rightarrow> 'a AppState_scheme \<Rightarrow> Dimensions \<Rightarrow> Canvas option completion"

definition updateMinimap ::
  "('e, 'a) exporter \<Rightarrow> 'e list \<Rightarrow> 'a AppState_scheme \<Rightarrow> SceneBounds option
     \<Rightarrow> ('e, 'a) effect list \<times> unit completion" where
  "updateMinimap exportToCanvas elements appState bounds =
     (if length elements = 0 then ([SetMinimapCanvas None], Normal ())
      else case bounds of
        None \<Rightarrow> ([SetMinimapCanvas None], Normal ())
      | Some b \<Rightarrow>
          if SceneBounds.width b \<le> Fin 0 \<or> SceneBounds.height b \<le> Fin 0
          then ([SetMinimapCanvas None], Normal ())
          else
            (let exportState = appState\<lparr>scrollX := - minX b, scrollY := - minY b\<rparr>;
                 dims = getDimensions b (minimapScale bounds);
                 call = ExportToCanvas elements exportState dims
             in case exportToCanvas elements exportState dims of
                  Throw error \<Rightarrow>
                    ([call, ConsoleError error, SetMinimapCanvas None], Normal ())
                | Normal None \<Rightarrow>
                    ([call, ConsoleWarn, SetMinimapCanvas None], Normal ())
                | Normal (Some canvas) \<Rightarrow>
                    if Canvas.width canvas > 0 \<and> Canvas.height canvas > 0
                    then ([call, SetMinimapCanvas (Some canvas)], Normal ())
                    else ([call, ConsoleWarn, SetMinimapCanvas None], Normal ())))"

text \<open>
  The file holds a second copy of the component, with a routine of the same name that has
  neither the size guards nor the clearing of the preview.
\<close>

definition getDimensions_legacy :: "SceneBounds \<Rightarrow> jsnum \<Rightarrow> Dimensions" where
  "getDimensions_legacy b scale =
     \<lparr>dim_width = SceneBounds.width b * scale,
      dim_height = SceneBounds.height b * scale,
      dim_scale = scale\<rparr>"

definition updateMinimap_legacy ::
  "('e, 'a) exporter \<Rightarrow> 'e list \<Rightarrow> 'a AppState_scheme \<Rightarrow> SceneBounds option
     \<Rightarrow> ('e, 'a) effect list \<times> unit completion" where
  "updateMinimap_legacy exportToCanvas elements appState bounds =
     (if length elements = 0 then ([], Normal ())
      else case bounds of
        None \<Rightarrow> ([], Normal ())
      | Some b \<Rightarrow>
          (let exportState = appState\<lparr>scrollX := - minX b, scrollY := - minY b\<rparr>;
               dims = getDimensions_legacy b (minimapScale bounds);
               call = ExportToCanvas elements exportState dims
           in case exportToCanvas elements exportState dims of
                Throw error \<Rightarrow> ([call, ConsoleError error], Normal ())
              | Normal canvas \<Rightarrow> ([call, SetMinimapCanvas canvas], Normal ())))"

text \<open>The effects applied to the component state, oldest first.\<close>

fun applyEffect :: "('e, 'a) effect \<Rightarrow> MinimapState \<Rightarrow> MinimapState" where
  "applyEffect (SetMinimapCanvas c) st = st\<lparr>minimapCanvas := c\<rparr>"
| "applyEffect _ st = st"

definition applyEffects :: "('e, 'a) effect list \<Rightarrow> MinimapState \<Rightarrow> MinimapState" where
  "applyEffects effs st = fold applyEffect effs st"

fun isExportCall :: "('e, 'a) effect \<Rightarrow> bool" where
  "isExportCall (ExportToCanvas _ _ _) = True"
| "isExportCall _ = False"

section \<open>What the component renders\<close>

text \<open>
  The component returns \<open>null\<close> or the widget; of the widget the model keeps the position
  of the container.
\<close>

record MinimapView =
  view_left :: jsnum
  view_top :: jsnum

definition Minimap_render ::
  "'e list \<Rightarrow> 'a AppState_scheme \<Rightarrow> MinimapState \<Rightarrow> MinimapView option" where
  "Minimap_render elements appState st =
     (if \<not> showMinimap appState then None
      else if length elements = 0 then None
      else case minimapCanvas st of
        None \<Rightarrow> None
      | Some canvas \<Rightarrow>
          if Canvas.width canvas = 0 \<or> Canvas.height canvas = 0 then None
          else Some \<lparr>view_left = pt_x (minimapPosition appState),
                     view_top = pt_y (minimapPosition appState)\<rparr>)"

section \<open>The toggle action\<close>

datatype CaptureUpdateAction = IMMEDIATELY | NEVER | EVENTUALLY

record 'a ActionResult =
  res_appState :: "'a AppState_scheme"
  res_captureUpdate :: CaptureUpdateAction

definition actionToggleMinimap_checked :: "'a AppState_scheme \<Rightarrow> bool" where
  "actionToggleMinimap_checked appState = showMinimap appState"

definition actionToggleMinimap_perform ::
  "'e list \<Rightarrow> 'a AppState_scheme \<Rightarrow> 'a ActionResult" where
  "actionToggleMinimap_perform elements appState =
     \<lparr>res_appState = appState\<lparr>showMinimap := \<not> actionToggleMinimap_checked appState\<rparr>,
      res_captureUpdate = EVENTUALLY\<rparr>"

section \<open>The debounce timer\<close>

text \<open>
  The browser's timers: the clock in milliseconds, the next handle (handles are positive
  integers), the pending timers as pairs of handle and due time, and the record of what
  happened, newest first. All timers of the component have the same delay, so they are
  due in the order they were set.
\<close>

datatype timer_call = TimerSet nat nat | TimerFired nat nat

record Timers =
  now :: nat
  nextHandle :: nat
  pending :: "(nat \<times> nat) list"
  calls :: "timer_call list"

definition setTimeout :: "nat \<Rightarrow> Timers \<Rightarrow> nat \<times> Timers" where
  "setTimeout delay tm =
     (nextHandle tm,
      tm\<lparr>nextHandle := nextHandle tm + 1,
          pending := pending tm @ [(nextHandle tm, now tm + delay)],
          calls := TimerSet (nextHandle tm) (now tm) # calls tm\<rparr>)"

definition clearTimeout :: "nat \<Rightarrow> Timers \<Rightarrow> Timers" where
  "clearTimeout h tm = tm\<lparr>pending := filter (\<lambda>(h', due). h' \<noteq> h) (pending tm)\<rparr>"

text \<open>
  \<open>debouncedUpdate\<close>: a handle is truthy when it is not zero. The callback of the timer
  is \<open>updateMinimap\<close>; its run is the entry \<open>TimerFired\<close> of the record.
\<close>

definition debouncedUpdate :: "MinimapState \<times> Timers \<Rightarrow> MinimapState \<times> Timers" where
  "debouncedUpdate = (\<lambda>(st, tm).
     let tm' = (case debounceTimerRef st of
                  Some h \<Rightarrow> if h \<noteq> 0 then clearTimeout h tm else tm
                | None \<Rightarrow> tm);
         (h, tm'') = setTimeout DEBOUNCE_DELAY tm'
     in (st\<lparr>debounceTimerRef := Some h\<rparr>, tm''))"

text \<open>The effect that runs when the elements, the scroll offsets, the zoom or the flag change.\<close>

definition minimapEffect ::
  "'e list \<Rightarrow> 'a AppState_scheme \<Rightarrow> MinimapState \<times> Timers \<Rightarrow> MinimapState \<times> Timers" where
  "minimapEffect elements appState = (\<lambda>(st, tm).
     if showMinimap appState \<and> length elements > 0 then debouncedUpdate (st, tm)
     else if \<not> showMinimap appState \<or> length elements = 0
       then (st\<lparr>minimapCanvas := None\<rparr>, tm)
       else (st, tm))"

text \<open>
  Time passing: the timers that have become due fire, in order, and are gone; the record
  keeps, for each, the time at which it was due.
\<close>

definition elapse :: "nat \<Rightarrow> Timers \<Rightarrow> Timers" where
  "elapse d tm =
     (let t = now tm + d;
          fired = filter (\<lambda>(h, due). due \<le> t) (pending tm)
      in tm\<lparr>now := t,
             pending := filter (\<lambda>(h, due). \<not> due \<le> t) (pending tm),
             calls := rev (map (\<lambda>(h, due). TimerFired h due) fired) @ calls tm\<rparr>)"

datatype ('e, 'a) event = Change "'e list" "'a AppState_scheme" | Elapse nat

fun step :: "('e, 'a) event \<Rightarrow> MinimapState \<times> Timers \<Rightarrow> MinimapState \<times> Timers" where
  "step (Change elements appState) s = minimapEffect elements appState s"
| "step (Elapse d) (st, tm) = (st, elapse d tm)"

definition run ::
  "('e, 'a) event list \<Rightarrow> MinimapState \<times> Timers \<Rightarrow> MinimapState \<times> Timers" where
  "run evs s = fold step evs s"

text \<open>The state of a freshly mounted component, and of the timers before it.\<close>

definition initialState :: MinimapState where
  "initialState =
     \<lparr>minimapCanvas = None, debounceTimerRef = None, isDraggingRef = False,
      isDraggingMinimapRef = False, dragStartRef = \<lparr>pt_x = Fin 0, pt_y = Fin 0\<rparr>\<rparr>"

definition initialTimers :: Timers where
  "initialTimers = \<lparr>now = 0, nextHandle = 1, pending = [], calls = []\<rparr>"

text \<open>
  A record of timer calls is debounced when every firing comes right after the setting of
  the same timer, \<open>DEBOUNCE_DELAY\<close> milliseconds later: no other timer was set in between.
\<close>

fun debounced :: "timer_call list \<Rightarrow> bool" where
  "debounced [] = True"
| "debounced (TimerSet h t # cs) = debounced cs"
| "debounced (TimerFired h t # TimerSet h' t' # cs) =
     (h = h' \<and> t = t' + DEBOUNCE_DELAY \<and> debounced cs)"
| "debounced (TimerFired h t # _) = False"

text \<open>The invariant of the timers and the handle kept by the component.\<close>

definition timer_inv :: "MinimapState \<times> Timers \<Rightarrow> bool" where
  "timer_inv = (\<lambda>(st, tm).
     0 < nextHandle tm \<and> debounced (calls tm) \<and>
     (pending tm = [] \<or>
      (\<exists>h t cs. pending tm = [(h, t + DEBOUNCE_DELAY)] \<and> debounceTimerRef st = Some h
         \<and> h \<noteq> 0 \<and> calls tm = TimerSet h t # cs)))"

section \<open>Example values\<close>

text \<open>
  A scene of 300 by 600 units whose preview has scale 1/4 and size 75 by 150, a scene of
  15000 by 10 units whose preview has scale 1/100, and an application state.
\<close>

definition exampleBounds :: SceneBounds where
  "exampleBounds =
     \<lparr>minX = Fin 10, minY = Fin 20, maxX = Fin 310, maxY = Fin 620,
      SceneBounds.width = Fin 300, SceneBounds.height = Fin 600\<rparr>"

definition thinBounds :: SceneBounds where
  "thinBounds =
     \<lparr>minX = Fin 0, minY = Fin 0, maxX = Fin 15000, maxY = Fin 10,
      SceneBounds.width = Fin 15000, SceneBounds.height = Fin 10\<rparr>"

definition exampleAppState :: AppState where
  "exampleAppState =
     \<lparr>scrollX = Fin 0, scrollY = Fin 0, zoom_value = Fin 2,
      AppState.width = Fin 1000, AppState.height = Fin 800,
      showMinimap = True, minimapPosition = \<lparr>pt_x = Fin 10, pt_y = Fin 10\<rparr>\<rparr>"

definition exampleState :: MinimapState where
  "exampleState =
     initialState\<lparr>minimapCanvas := Some \<lparr>Canvas.width = 75, Canvas.height = 150\<rparr>\<rparr>"

section \<open>Facts about the numbers\<close>

lemma Fin_minus [simp]: "Fin a - Fin b = Fin (a - b)"
  by (simp add: minus_jsnum_def)

lemma less_PosInf [simp]: "(a < PosInf) = (a \<noteq> NaN \<and> a \<noteq> PosInf)"
  by (cases a) simp_all

lemma NegInf_less [simp]: "(NegInf < a) = (a \<noteq> NaN \<and> a \<noteq> NegInf)"
  by (cases a) simp_all

lemma Math_min3_Fin:
  "Math_min [Fin a, Fin b, Fin c] = Fin (min a (min b c))"
  by (simp add: Math_min_def min_def)

lemma Math_max2_Fin: "Math_max [Fin a, Fin b] = Fin (max a b)"
  by (simp add: Math_max_def max_def)

lemma Math_min2_Fin: "Math_min [Fin a, Fin b] = Fin (min a b)"
  by (simp add: Math_min_def min_def)

lemma min_loop_last_le:
  "NaN \<notin> set ns \<Longrightarrow> lowest \<noteq> NaN \<Longrightarrow> min_loop lowest (ns @ [Fin c]) \<le> Fin c"
proof (induction ns arbitrary: lowest)
  case Nil
  then show ?case by (cases lowest) auto
next
  case (Cons n ns)
  then show ?case by auto
qed

lemma divide_Fin_not_NaN: "c \<noteq> 0 \<Longrightarrow> a \<noteq> NaN \<Longrightarrow> Fin c / a \<noteq> NaN"
  by (cases a) auto

lemma clamp_range:
  assumes "a \<noteq> NaN" and "lo \<le> hi"
  shows "\<exists>r. Math_max [Fin lo, Math_min [a, Fin hi]] = Fin r \<and> lo \<le> r \<and> r \<le> hi"
  using assms by (cases a) (auto simp: Math_max_def Math_min_def)

lemma Fin_minus_not_NaN: "a \<noteq> NaN \<Longrightarrow> Fin c - a \<noteq> NaN"
  by (cases a) (simp_all add: minus_jsnum_def)

lemma scaled_width_le:
  assumes "0 < w" and "0 < h"
  shows "w * min (150 / w) (min (150 / h) 1) \<le> (150::rat)"
proof -
  have "w * min (150 / w) (min (150 / h) 1) \<le> w * (150 / w)"
    using assms by (intro mult_left_mono) auto
  also have "\<dots> = 150" using assms by simp
  finally show ?thesis .
qed

lemma scaled_height_le:
  assumes "0 < w" and "0 < h"
  shows "h * min (150 / w) (min (150 / h) 1) \<le> (150::rat)"
proof -
  have "h * min (150 / w) (min (150 / h) 1) \<le> h * (150 / h)"
    using assms by (intro mult_left_mono) auto
  also have "\<dots> = 150" using assms by simp
  finally show ?thesis .
qed

lemma centre_click:
  assumes "(s::rat) \<noteq> 0" and "cw = w * s" and "cw \<le> 150"
  shows "(75 - max 0 ((150 - cw) / 2)) / s + m = m + w / 2"
proof -
  have "max 0 ((150 - cw) / 2) = (150 - cw) / 2" using assms(3) by simp
  then have "(75 - max 0 ((150 - cw) / 2)) / s = (w * s / 2) / s"
    using assms(2) by (simp add: field_simps)
  also have "\<dots> = w / 2" using assms(1) by simp
  finally show ?thesis by simp
qed

lemma minimapScale_positive:
  assumes "SceneBounds.width b = Fin w" and "SceneBounds.height b = Fin h"
    and "0 < w" and "0 < h"
  shows "minimapScale (Some b) = Fin (min (150 / w) (min (150 / h) 1))"
  using assms by (simp add: minimapScale_def MINIMAP_SIZE_def Math_min3_Fin)

text \<open>
  Whenever the bounds are finite the scale is a positive rational, also for a scene
  without width or without height, where a ratio is \<open>Infinity\<close>.
\<close>

lemma minimapScale_finite:
  assumes "SceneBounds.width b = Fin w" and "SceneBounds.height b = Fin h"
    and "0 \<le> w" and "0 \<le> h"
  shows "\<exists>s. minimapScale (Some b) = Fin s \<and> 0 < s \<and> s \<le> 1"
proof -
  consider (both) "0 < w" "0 < h" | (flat) "0 < w" "h = 0" | (narrow) "w = 0" "0 < h"
    | (point) "w = 0" "h = 0"
    using assms(3,4) by force
  then show ?thesis
  proof cases
    case both
    then show ?thesis using minimapScale_positive [OF assms(1,2)] by simp
  next
    case flat
    then have "minimapScale (Some b) = Fin (min (150 / w) 1)"
      using assms(1,2) by (simp add: minimapScale_def MINIMAP_SIZE_def Math_min_def min_def)
    then show ?thesis using flat by simp
  next
    case narrow
    then have "minimapScale (Some b) = Fin (min (150 / h) 1)"
      using assms(1,2) by (simp add: minimapScale_def MINIMAP_SIZE_def Math_min_def min_def)
    then show ?thesis using narrow by simp
  next
    case point
    then have "minimapScale (Some b) = Fin 1"
      using assms(1,2) by (simp add: minimapScale_def MINIMAP_SIZE_def Math_min_def)
    then show ?thesis by simp
  qed
qed

lemma exampleBounds_scale: "minimapScale (Some exampleBounds) = Fin (1 / 4)"
  by (simp add: minimapScale_positive [where w = 300 and h = 600] exampleBounds_def)

section \<open>The scale\<close>

text \<open>
  C1: for a non-empty element collection whose scene bounds have width \<open>w\<close> and height
  \<open>h\<close> (numbers, not \<open>NaN\<close>), the scale is \<open>Math.min(150 / w, 150 / h, 1)\<close> and hence
  at most 1; for positive \<open>w\<close> and \<open>h\<close> this is the minimum of the three rationals. For
  the empty collection the scale is 1.
\<close>

theorem minimapScale_at_most_one:
  assumes "elements \<noteq> []"
    and "sceneBounds getCommonBounds elements = Some b"
    and "SceneBounds.width b = w" and "SceneBounds.height b = h"
    and "w \<noteq> NaN" and "h \<noteq> NaN"
  shows "minimapScale (sceneBounds getCommonBounds elements)
           = Math_min [MINIMAP_SIZE / w, MINIMAP_SIZE / h, Fin 1]
       \<and> MINIMAP_SIZE = Fin 150
       \<and> minimapScale (sceneBounds getCommonBounds elements) \<le> Fin 1
       \<and> (\<forall>p q. w = Fin p \<and> h = Fin q \<and> 0 < p \<and> 0 < q \<longrightarrow>
            minimapScale (sceneBounds getCommonBounds elements)
              = Fin (min (150 / p) (min (150 / q) 1)))
       \<and> minimapScale (sceneBounds getCommonBounds []) = Fin 1"
proof -
  have eq: "minimapScale (sceneBounds getCommonBounds elements)
           = Math_min [MINIMAP_SIZE / w, MINIMAP_SIZE / h, Fin 1]"
    using assms by (simp add: minimapScale_def)
  have nn: "NaN \<notin> set [MINIMAP_SIZE / w, MINIMAP_SIZE / h]"
    using divide_Fin_not_NaN [of 150 w] divide_Fin_not_NaN [of 150 h] assms(5,6)
    by (auto simp: MINIMAP_SIZE_def)
  have le: "Math_min [MINIMAP_SIZE / w, MINIMAP_SIZE / h, Fin 1] \<le> Fin 1"
    using min_loop_last_le [OF nn, of PosInf 1] by (simp add: Math_min_def)
  have pos: "\<forall>p q. w = Fin p \<and> h = Fin q \<and> 0 < p \<and> 0 < q \<longrightarrow>
       Math_min [MINIMAP_SIZE / w, MINIMAP_SIZE / h, Fin 1] = Fin (min (150 / p) (min (150 / q) 1))"
    by (auto simp: MINIMAP_SIZE_def Math_min3_Fin)
  have empty: "minimapScale (sceneBounds getCommonBounds []) = Fin 1"
    by (simp add: minimapScale_def sceneBounds_def)
  show ?thesis using eq le pos empty by (simp add: MINIMAP_SIZE_def)
qed

theorem minimapScale_at_most_one_witness:
  "minimapScale (sceneBounds (\<lambda>_. (Fin 10, Fin 20, Fin 310, Fin 620)) [()]) = Fin (1 / 4)
   \<and> minimapScale (sceneBounds (\<lambda>_. (Fin 10, Fin 20, Fin 310, Fin 620)) [()]) \<le> Fin 1"
proof -
  have b: "sceneBounds (\<lambda>_. (Fin 10, Fin 20, Fin 310, Fin 620)) [()] = Some exampleBounds"
    by (simp add: sceneBounds_def exampleBounds_def)
  have w: "SceneBounds.width exampleBounds = Fin 300"
    and h: "SceneBounds.height exampleBounds = Fin 600"
    by (simp_all add: exampleBounds_def)
  show ?thesis
    using minimapScale_at_most_one [where elements = "[()]"
        and getCommonBounds = "\<lambda>_. (Fin 10, Fin 20, Fin 310, Fin 620)"
        and b = exampleBounds and w = "Fin 300" and h = "Fin 600", OF _ b w h]
    by (simp add: MINIMAP_SIZE_def Math_min3_Fin)
qed

section \<open>The coordinate mappings\<close>

text \<open>
  C3: for every scene coordinate \<open>p\<close>, bounds minimum \<open>m\<close> and scale \<open>s > 0\<close>, the
  forward mapping followed by the inverse mapping returns \<open>p\<close>.
\<close>

theorem mapping_roundtrip:
  "0 < s \<Longrightarrow> inverseMapping (forwardMapping (Fin p) (Fin m) (Fin s)) (Fin m) (Fin s) = Fin p"
  by (simp add: inverseMapping_def forwardMapping_def)

theorem mapping_roundtrip_witness:
  "(0::rat) < 1 / 4 \<and> inverseMapping (forwardMapping (Fin 130) (Fin 10) (Fin (1 / 4))) (Fin 10) (Fin (1 / 4)) = Fin 130"
  using mapping_roundtrip [of "1 / 4" 130 10] by simp

text \<open>
  C4: the viewport indicator is the forward image of the viewport. Its corner
  \<open>(x, y)\<close> is the image of the scene corner \<open>(-scrollX, -scrollY)\<close>, and its corner
  \<open>(x + width, y + height)\<close> is the image of
  \<open>(-scrollX + width / zoom, -scrollY + height / zoom)\<close>: each coordinate has the
  bounds minimum subtracted and is multiplied by the scale.
\<close>

theorem viewportRect_forward_image:
  assumes "minimapScale (Some b) = Fin s"
    and "minX b = Fin mx" and "minY b = Fin my"
    and "scrollX appState = Fin sx" and "scrollY appState = Fin sy"
    and "AppState.width appState = Fin vw" and "AppState.height appState = Fin vh"
    and "zoom_value appState = Fin z" and "0 < z"
  shows "\<exists>r. viewportRect (Some c) (Some b) appState = Some r
      \<and> rect_x r = forwardMapping (- scrollX appState) (minX b) (minimapScale (Some b))
      \<and> rect_y r = forwardMapping (- scrollY appState) (minY b) (minimapScale (Some b))
      \<and> rect_x r + rect_width r =
          forwardMapping (- scrollX appState + AppState.width appState / zoom_value appState)
            (minX b) (minimapScale (Some b))
      \<and> rect_y r + rect_height r =
          forwardMapping (- scrollY appState + AppState.height appState / zoom_value appState)
            (minY b) (minimapScale (Some b))
      \<and> rect_x r = Fin ((- sx - mx) * s) \<and> rect_y r = Fin ((- sy - my) * s)
      \<and> rect_x r + rect_width r = Fin ((- sx + vw / z - mx) * s)
      \<and> rect_y r + rect_height r = Fin ((- sy + vh / z - my) * s)"
  using assms
  by (simp add: viewportRect_def Let_def forwardMapping_def)

theorem viewportRect_forward_image_witness:
  "map_option rect_x (viewportRect (Some \<lparr>Canvas.width = 75, Canvas.height = 150\<rparr>)
      (Some exampleBounds) exampleAppState) = Some (Fin (- 5 / 2))
   \<and> map_option (\<lambda>r. rect_x r + rect_width r)
        (viewportRect (Some \<lparr>Canvas.width = 75, Canvas.height = 150\<rparr>)
          (Some exampleBounds) exampleAppState) = Some (Fin ((500 - 10) / 4))"
  using viewportRect_forward_image [where b = exampleBounds and appState = exampleAppState
      and c = "\<lparr>Canvas.width = 75, Canvas.height = 150\<rparr>"
      and s = "1 / 4" and mx = 10 and my = 20 and sx = 0 and sy = 0
      and vw = 1000 and vh = 800 and z = 2, OF exampleBounds_scale]
  by (auto simp: exampleBounds_def exampleAppState_def)

section \<open>Clicking and dragging on the preview\<close>

text \<open>
  C2, as amended: a mouse-down on the preview (canvas rendered, bounds present) sets the
  dragging flag, computes the scene point
  \<open>(click - centeringOffset) / scale + sceneBoundsMin\<close> and sets the scroll offsets so
  that this point is the centre of the viewport. When the preview bitmap has exactly the
  scaled size of the scene, a click at the centre \<open>(75, 75)\<close> of the preview gives the
  centre of the scene's bounding box.
\<close>

theorem handleCanvasMouseDown_recenters:
  assumes "minimapCanvas st = Some mc"
    and "SceneBounds.width b = Fin w" and "SceneBounds.height b = Fin h"
    and "0 < w" and "0 < h"
    and "minX b = Fin mx" and "minY b = Fin my"
    and "AppState.width appState = Fin vw" and "AppState.height appState = Fin vh"
    and "zoom_value appState = Fin z" and "0 < z"
    and "s = min (150 / w) (min (150 / h) 1)"
    and "sceneX = (clientX event - dom_left rect
                    - max 0 ((150 - of_nat (Canvas.width mc)) / 2)) / s + mx"
    and "sceneY = (clientY event - dom_top rect
                    - max 0 ((150 - of_nat (Canvas.height mc)) / 2)) / s + my"
  shows "\<exists>st' appState'.
      handleCanvasMouseDown (Some b) (Some rect) event (st, appState) = (st', appState')
      \<and> isDraggingRef st'
      \<and> scrollX appState' = Fin (vw / z / 2 - sceneX)
      \<and> scrollY appState' = Fin (vh / z / 2 - sceneY)
      \<and> - scrollX appState' + AppState.width appState / zoom_value appState / Fin 2
          = Fin sceneX
      \<and> - scrollY appState' + AppState.height appState / zoom_value appState / Fin 2
          = Fin sceneY
      \<and> (clientX event - dom_left rect = 75 \<and> of_nat (Canvas.width mc) = w * s
           \<longrightarrow> sceneX = mx + w / 2)
      \<and> (clientY event - dom_top rect = 75 \<and> of_nat (Canvas.height mc) = h * s
           \<longrightarrow> sceneY = my + h / 2)"
proof -
  have s0: "0 < s" using assms(4,5,12) by simp
  have sc: "minimapScale (Some b) = Fin s"
    using assms(2-5,12) by (simp add: minimapScale_positive)
  have ev: "handleCanvasMouseDown (Some b) (Some rect) event (st, appState) =
      (st\<lparr>isDraggingRef := True,
          dragStartRef := \<lparr>pt_x = Fin (clientX event), pt_y = Fin (clientY event)\<rparr>\<rparr>,
       appState\<lparr>scrollX := Fin (vw / z / 2 - sceneX), scrollY := Fin (vh / z / 2 - sceneY)\<rparr>)"
    using assms(1,6-11,13,14) s0
    by (simp add: handleCanvasMouseDown_def Let_def sc inverseMapping_def MINIMAP_SIZE_def
        Math_max2_Fin)
  have cx: "clientX event - dom_left rect = 75 \<and> of_nat (Canvas.width mc) = w * s
      \<longrightarrow> sceneX = mx + w / 2"
  proof
    assume a: "clientX event - dom_left rect = 75 \<and> of_nat (Canvas.width mc) = w * s"
    have "of_nat (Canvas.width mc) \<le> (150::rat)"
      using a scaled_width_le [OF assms(4,5)] assms(12) by simp
    then show "sceneX = mx + w / 2"
      using centre_click [of s "of_nat (Canvas.width mc)" w mx] a s0 assms(13) by simp
  qed
  have cy: "clientY event - dom_top rect = 75 \<and> of_nat (Canvas.height mc) = h * s
      \<longrightarrow> sceneY = my + h / 2"
  proof
    assume a: "clientY event - dom_top rect = 75 \<and> of_nat (Canvas.height mc) = h * s"
    have "of_nat (Canvas.height mc) \<le> (150::rat)"
      using a scaled_height_le [OF assms(4,5)] assms(12) by simp
    then show "sceneY = my + h / 2"
      using centre_click [of s "of_nat (Canvas.height mc)" h my] a s0 assms(14) by simp
  qed
  show ?thesis
    using ev cx cy assms(8-11) by simp
qed

theorem handleCanvasMouseDown_recenters_witness:
  "scrollX (snd (handleCanvasMouseDown (Some exampleBounds)
      (Some \<lparr>dom_left = 5, dom_top = 7\<rparr>) \<lparr>clientX = 80, clientY = 82\<rparr>
      (exampleState, exampleAppState))) = Fin (250 - (10 + 300 / 2))
   \<and> scrollY (snd (handleCanvasMouseDown (Some exampleBounds)
      (Some \<lparr>dom_left = 5, dom_top = 7\<rparr>) \<lparr>clientX = 80, clientY = 82\<rparr>
      (exampleState, exampleAppState))) = Fin (200 - (20 + 600 / 2))"
  using handleCanvasMouseDown_recenters [where st = exampleState
      and mc = "\<lparr>Canvas.width = 75, Canvas.height = 150\<rparr>"
      and b = exampleBounds and appState = exampleAppState
      and w = 300 and h = 600 and mx = 10 and my = 20 and vw = 1000 and vh = 800 and z = 2
      and s = "1 / 4" and sceneX = 160 and sceneY = 320
      and event = "\<lparr>clientX = 80, clientY = 82\<rparr>"
      and rect = "\<lparr>dom_left = 5, dom_top = 7\<rparr>"]
  by (auto simp: exampleBounds_def exampleAppState_def exampleState_def initialState_def)

text \<open>
  The claim as first stated fails for the scene of 15000 by 10 units: the preview bitmap
  has the size the component asks for, 150 by 1, the scaled height 1/10 being raised to 1.
  The click at the centre of the preview puts the viewport's centre at the scene height
  50, below the bounding box, whose centre is at height 5.
\<close>

theorem centre_click_off_centre:
  "getDimensions thinBounds (minimapScale (Some thinBounds))
     = \<lparr>dim_width = Fin 150, dim_height = Fin 1, dim_scale = Fin (1 / 100)\<rparr>
   \<and> - scrollY (snd (handleCanvasMouseDown (Some thinBounds)
          (Some \<lparr>dom_left = 0, dom_top = 0\<rparr>) \<lparr>clientX = 75, clientY = 75\<rparr>
          (initialState\<lparr>minimapCanvas := Some \<lparr>Canvas.width = 150, Canvas.height = 1\<rparr>\<rparr>,
           exampleAppState)))
       + AppState.height exampleAppState / zoom_value exampleAppState / Fin 2 = Fin 50
   \<and> minY thinBounds + SceneBounds.height thinBounds / Fin 2 = Fin 5"
  by (simp add: handleCanvasMouseDown_def getDimensions_def minimapScale_def thinBounds_def
      exampleAppState_def initialState_def MINIMAP_SIZE_def Math_min3_Fin Math_max2_Fin
      inverseMapping_def Let_def)

text \<open>
  C6: while the dragging flag is set, a pointer-move whose position differs by
  \<open>(dx, dy)\<close> from the last recorded position lowers \<open>scrollX\<close> by \<open>dx / scale\<close> and
  \<open>scrollY\<close> by \<open>dy / scale\<close>, so the viewport's minimum corner moves by
  \<open>(dx / scale, dy / scale)\<close>, and records the new position for the next move. The
  pointer-down sets the flag and records its position; the pointer-up clears the flag,
  and a move after it changes nothing.
\<close>

theorem preview_drag_translates:
  assumes "isDraggingRef st" and "minimapCanvas st = Some mc"
    and "minimapScale (Some b) = Fin s" and "0 < s"
    and "dragStartRef st = \<lparr>pt_x = Fin px, pt_y = Fin py\<rparr>"
    and "scrollX appState = Fin sx" and "scrollY appState = Fin sy"
    and "dx = clientX move - px" and "dy = clientY move - py"
  shows "\<exists>st' appState'.
      handleCanvasMouseMove (Some b) (Some rect) move (st, appState) = (st', appState')
      \<and> scrollX appState' = Fin (sx - dx / s) \<and> scrollY appState' = Fin (sy - dy / s)
      \<and> - scrollX appState' = - scrollX appState + Fin (dx / s)
      \<and> - scrollY appState' = - scrollY appState + Fin (dy / s)
      \<and> isDraggingRef st' \<and> minimapCanvas st' = Some mc
      \<and> dragStartRef st' = \<lparr>pt_x = Fin (clientX move), pt_y = Fin (clientY move)\<rparr>
      \<and> \<not> isDraggingRef (handleCanvasMouseUp st')
      \<and> handleCanvasMouseMove (Some b) (Some rect) later (handleCanvasMouseUp st', appState')
          = (handleCanvasMouseUp st', appState')
      \<and> isDraggingRef (fst (handleCanvasMouseDown (Some b) (Some rect) down (st, appState)))
      \<and> dragStartRef (fst (handleCanvasMouseDown (Some b) (Some rect) down (st, appState)))
          = \<lparr>pt_x = Fin (clientX down), pt_y = Fin (clientY down)\<rparr>"
proof -
  have s0: "s \<noteq> 0" using assms(4) by simp
  have mv: "handleCanvasMouseMove (Some b) (Some rect) move (st, appState) =
      (st\<lparr>dragStartRef := \<lparr>pt_x = Fin (clientX move), pt_y = Fin (clientY move)\<rparr>\<rparr>,
       appState\<lparr>scrollX := Fin (sx - dx / s), scrollY := Fin (sy - dy / s)\<rparr>)"
    using assms(1-3,5-9) s0 by (simp add: handleCanvasMouseMove_def Let_def)
  have up: "handleCanvasMouseMove (Some b) (Some rect) later (handleCanvasMouseUp st', appState')
      = (handleCanvasMouseUp st', appState')"
    for st' :: MinimapState and appState' :: "'a AppState_scheme"
    by (simp add: handleCanvasMouseMove_def handleCanvasMouseUp_def)
  have dn: "fst (handleCanvasMouseDown (Some b) (Some rect) down (st, appState)) =
      st\<lparr>isDraggingRef := True,
         dragStartRef := \<lparr>pt_x = Fin (clientX down), pt_y = Fin (clientY down)\<rparr>\<rparr>"
    using assms(2) by (simp add: handleCanvasMouseDown_def Let_def)
  show ?thesis
    unfolding mv dn using up assms(1,2,6,7) by (simp add: handleCanvasMouseUp_def)
qed

theorem preview_drag_translates_witness:
  "scrollX (snd (handleCanvasMouseMove (Some exampleBounds)
      (Some \<lparr>dom_left = 5, dom_top = 7\<rparr>) \<lparr>clientX = 83, clientY = 80\<rparr>
      (exampleState\<lparr>isDraggingRef := True,
                    dragStartRef := \<lparr>pt_x = Fin 80, pt_y = Fin 82\<rparr>\<rparr>,
       exampleAppState))) = Fin (0 - 3 / (1 / 4))
   \<and> scrollY (snd (handleCanvasMouseMove (Some exampleBounds)
      (Some \<lparr>dom_left = 5, dom_top = 7\<rparr>) \<lparr>clientX = 83, clientY = 80\<rparr>
      (exampleState\<lparr>isDraggingRef := True,
                    dragStartRef := \<lparr>pt_x = Fin 80, pt_y = Fin 82\<rparr>\<rparr>,
       exampleAppState))) = Fin (0 - (- 2) / (1 / 4))"
  using preview_drag_translates [where
      st = "exampleState\<lparr>isDraggingRef := True,
                         dragStartRef := \<lparr>pt_x = Fin 80, pt_y = Fin 82\<rparr>\<rparr>"
      and mc = "\<lparr>Canvas.width = 75, Canvas.height = 150\<rparr>"
      and b = exampleBounds and appState = exampleAppState
      and s = "1 / 4" and px = 80 and py = 82 and sx = 0 and sy = 0
      and dx = 3 and dy = "- 2" and move = "\<lparr>clientX = 83, clientY = 80\<rparr>"
      and rect = "\<lparr>dom_left = 5, dom_top = 7\<rparr>"
      and down = "\<lparr>clientX = 80, clientY = 82\<rparr>"
      and later = "\<lparr>clientX = 90, clientY = 90\<rparr>"]
  by (auto simp: exampleBounds_scale exampleAppState_def exampleState_def initialState_def)

section \<open>The position of the widget\<close>

text \<open>
  C10: after a drag-move of the widget (the flag of the widget drag being set), in a
  window of at least 220 pixels in each dimension, the stored position has
  \<open>x\<close> in \<open>[10, innerWidth - 210]\<close> and \<open>y\<close> in \<open>[10, innerHeight - 210]\<close>.
\<close>

theorem minimapPosition_clamped:
  assumes "isDraggingMinimapRef st"
    and "pt_x (dragStartRef st) \<noteq> NaN" and "pt_y (dragStartRef st) \<noteq> NaN"
    and "220 \<le> innerWidth window" and "220 \<le> innerHeight window"
    and "handleGlobalMouseMove window e (st, appState) = (st', appState')"
  shows "\<exists>x y. minimapPosition appState' = \<lparr>pt_x = Fin x, pt_y = Fin y\<rparr>
      \<and> 10 \<le> x \<and> x \<le> of_int (innerWidth window) - 210
      \<and> 10 \<le> y \<and> y \<le> of_int (innerHeight window) - 210"
proof -
  let ?newX = "Fin (clientX e) - pt_x (dragStartRef st)"
  let ?newY = "Fin (clientY e) - pt_y (dragStartRef st)"
  have lx: "(10::rat) \<le> of_int (innerWidth window) - 200 - 10" using assms(4) by simp
  have ly: "(10::rat) \<le> of_int (innerHeight window) - 200 - 10" using assms(5) by simp
  obtain x where x: "Math_max [Fin 10, Math_min [?newX, Fin (of_int (innerWidth window) - 200 - 10)]] = Fin x"
      "10 \<le> x" "x \<le> of_int (innerWidth window) - 200 - 10"
    using clamp_range [OF Fin_minus_not_NaN [OF assms(2)] lx] by blast
  obtain y where y: "Math_max [Fin 10, Math_min [?newY, Fin (of_int (innerHeight window) - 200 - 10)]] = Fin y"
      "10 \<le> y" "y \<le> of_int (innerHeight window) - 200 - 10"
    using clamp_range [OF Fin_minus_not_NaN [OF assms(3)] ly] by blast
  have "minimapPosition appState' = \<lparr>pt_x = Fin x, pt_y = Fin y\<rparr>"
    using assms(1,6) x(1) y(1) by (auto simp: handleGlobalMouseMove_def Let_def)
  then show ?thesis using x(2,3) y(2,3) by auto
qed

theorem minimapPosition_clamped_witness:
  "\<exists>x y. minimapPosition (snd (handleGlobalMouseMove \<lparr>innerWidth = 1280, innerHeight = 720\<rparr>
      \<lparr>clientX = 2000, clientY = - 40\<rparr>
      (exampleState\<lparr>isDraggingMinimapRef := True,
                    dragStartRef := \<lparr>pt_x = Fin 30, pt_y = Fin 5\<rparr>\<rparr>,
       exampleAppState))) = \<lparr>pt_x = Fin x, pt_y = Fin y\<rparr>
     \<and> 10 \<le> x \<and> x \<le> 1280 - 210 \<and> 10 \<le> y \<and> y \<le> 720 - 210"
  using minimapPosition_clamped [where
      st = "exampleState\<lparr>isDraggingMinimapRef := True,
                         dragStartRef := \<lparr>pt_x = Fin 30, pt_y = Fin 5\<rparr>\<rparr>"
      and window = "\<lparr>innerWidth = 1280, innerHeight = 720\<rparr>"
      and e = "\<lparr>clientX = 2000, clientY = - 40\<rparr>" and appState = exampleAppState
      and st' = "fst (handleGlobalMouseMove \<lparr>innerWidth = 1280, innerHeight = 720\<rparr>
        \<lparr>clientX = 2000, clientY = - 40\<rparr>
        (exampleState\<lparr>isDraggingMinimapRef := True,
                      dragStartRef := \<lparr>pt_x = Fin 30, pt_y = Fin 5\<rparr>\<rparr>,
         exampleAppState))"
      and appState' = "snd (handleGlobalMouseMove \<lparr>innerWidth = 1280, innerHeight = 720\<rparr>
        \<lparr>clientX = 2000, clientY = - 40\<rparr>
        (exampleState\<lparr>isDraggingMinimapRef := True,
                      dragStartRef := \<lparr>pt_x = Fin 30, pt_y = Fin 5\<rparr>\<rparr>,
         exampleAppState))"]
  by simp

section \<open>Suppressed rendering and failures of the export\<close>

text \<open>
  C5: when the element collection is empty, or the width or the height of the scene
  bounds is not positive, \<open>updateMinimap\<close> only sets the preview to \<open>null\<close>: the export
  routine is not called, and after it the component renders nothing. With no element the
  component renders nothing whatever the preview.
\<close>

theorem updateMinimap_suppressed:
  assumes "bounds = sceneBounds getCommonBounds elements"
    and "elements = []
         \<or> (\<exists>b. bounds = Some b \<and> (SceneBounds.width b \<le> Fin 0 \<or> SceneBounds.height b \<le> Fin 0))"
  shows "updateMinimap exportToCanvas elements appState bounds
           = ([SetMinimapCanvas None], Normal ())
       \<and> \<not> list_ex isExportCall (fst (updateMinimap exportToCanvas elements appState bounds))
       \<and> minimapCanvas
           (applyEffects (fst (updateMinimap exportToCanvas elements appState bounds)) st) = None
       \<and> Minimap_render elements appState
           (applyEffects (fst (updateMinimap exportToCanvas elements appState bounds)) st) = None
       \<and> (elements = [] \<longrightarrow> Minimap_render elements appState st = None)"
proof -
  have u: "updateMinimap exportToCanvas elements appState bounds
           = ([SetMinimapCanvas None], Normal ())"
    using assms(2) by (auto simp: updateMinimap_def split: option.splits)
  show ?thesis
    unfolding u by (simp add: applyEffects_def Minimap_render_def)
qed

theorem updateMinimap_suppressed_witness:
  "updateMinimap (\<lambda>els a dims. Normal (Some \<lparr>Canvas.width = 1, Canvas.height = 150\<rparr>)) [()]
      exampleAppState (sceneBounds (\<lambda>_. (Fin 10, Fin 20, Fin 10, Fin 620)) [()])
     = ([SetMinimapCanvas None], Normal ())
   \<and> Minimap_render [()] exampleAppState
        (applyEffects (fst (updateMinimap
           (\<lambda>els a dims. Normal (Some \<lparr>Canvas.width = 1, Canvas.height = 150\<rparr>)) [()]
           exampleAppState (sceneBounds (\<lambda>_. (Fin 10, Fin 20, Fin 10, Fin 620)) [()])))
         exampleState) = None"
proof -
  have b: "sceneBounds (\<lambda>_. (Fin 10, Fin 20, Fin 10, Fin 620)) [()]
      = Some \<lparr>minX = Fin 10, minY = Fin 20, maxX = Fin 10, maxY = Fin 620,
              SceneBounds.width = Fin 0, SceneBounds.height = Fin 600\<rparr>"
    by (simp add: sceneBounds_def)
  have hyp: "[()] = [] \<or> (\<exists>b. sceneBounds (\<lambda>_. (Fin 10, Fin 20, Fin 10, Fin 620)) [()] = Some b
      \<and> (SceneBounds.width b \<le> Fin 0 \<or> SceneBounds.height b \<le> Fin 0))"
    by (simp add: b)
  show ?thesis
    using updateMinimap_suppressed [where elements = "[()]"
        and getCommonBounds = "\<lambda>_. (Fin 10, Fin 20, Fin 10, Fin 620)"
        and appState = exampleAppState and st = exampleState
        and exportToCanvas = "\<lambda>els a dims. Normal (Some \<lparr>Canvas.width = 1, Canvas.height = 150\<rparr>)",
        OF refl hyp]
    by blast
qed

text \<open>
  When the export throws, returns no canvas or returns a canvas with a zero dimension,
  \<open>updateMinimap\<close> calls the export once, logs, and sets the preview to \<open>null\<close>; it
  completes normally.
\<close>

lemma updateMinimap_failure_clears:
  assumes "elements \<noteq> []"
    and "SceneBounds.width b = Fin w" and "SceneBounds.height b = Fin h"
    and "0 < w" and "0 < h"
    and "exportToCanvas elements (appState\<lparr>scrollX := - minX b, scrollY := - minY b\<rparr>)
            (getDimensions b (minimapScale (Some b))) = outcome"
    and "outcome = Throw err \<or> outcome = Normal None
         \<or> (\<exists>c. outcome = Normal (Some c) \<and> (Canvas.width c = 0 \<or> Canvas.height c = 0))"
  shows "\<exists>call msg. updateMinimap exportToCanvas elements appState (Some b)
             = ([call, msg, SetMinimapCanvas None], Normal ())
       \<and> isExportCall call \<and> msg \<in> {ConsoleWarn, ConsoleError err}
       \<and> minimapCanvas
           (applyEffects (fst (updateMinimap exportToCanvas elements appState (Some b))) st)
           = None"
  using assms
  by (auto simp: updateMinimap_def Let_def applyEffects_def split: option.splits)

text \<open>
  C7: the routine of the second copy of the component does not do so. When the export
  throws it logs the error and leaves the preview that was shown; a canvas of size 0 by 0
  that the export returns becomes the preview.
\<close>

theorem updateMinimap_legacy_keeps_preview:
  "updateMinimap_legacy (\<lambda>els a dims. Throw ''export failed'') [()] exampleAppState
      (Some exampleBounds)
     = ([ExportToCanvas [()] (exampleAppState\<lparr>scrollX := Fin (- 10), scrollY := Fin (- 20)\<rparr>)
           \<lparr>dim_width = Fin 75, dim_height = Fin 150, dim_scale = Fin (1 / 4)\<rparr>,
         ConsoleError ''export failed''], Normal ())
   \<and> minimapCanvas (applyEffects
        (fst (updateMinimap_legacy (\<lambda>els a dims. Throw ''export failed'') [()] exampleAppState
           (Some exampleBounds))) exampleState)
     = Some \<lparr>Canvas.width = 75, Canvas.height = 150\<rparr>
   \<and> minimapCanvas (applyEffects
        (fst (updateMinimap_legacy
           (\<lambda>els a dims. Normal (Some \<lparr>Canvas.width = 0, Canvas.height = 0\<rparr>)) [()]
           exampleAppState (Some exampleBounds))) exampleState)
     = Some \<lparr>Canvas.width = 0, Canvas.height = 0\<rparr>"
  by (simp add: updateMinimap_legacy_def getDimensions_legacy_def Let_def applyEffects_def
      exampleBounds_def exampleState_def initialState_def minimapScale_def MINIMAP_SIZE_def
      Math_min_def)

section \<open>The toggle action\<close>

text \<open>
  C9: \<open>perform\<close> negates \<open>showMinimap\<close> and leaves every other field of the application
  state as it was, the fields outside the model included; performing it twice gives the
  state back.
\<close>

theorem toggleMinimap_frame:
  "showMinimap (res_appState (actionToggleMinimap_perform elements appState))
     = (\<not> showMinimap appState)
   \<and> res_appState (actionToggleMinimap_perform elements appState)
     = appState\<lparr>showMinimap := \<not> showMinimap appState\<rparr>
   \<and> scrollX (res_appState (actionToggleMinimap_perform elements appState)) = scrollX appState
   \<and> scrollY (res_appState (actionToggleMinimap_perform elements appState)) = scrollY appState
   \<and> zoom_value (res_appState (actionToggleMinimap_perform elements appState))
     = zoom_value appState
   \<and> AppState.width (res_appState (actionToggleMinimap_perform elements appState))
     = AppState.width appState
   \<and> AppState.height (res_appState (actionToggleMinimap_perform elements appState))
     = AppState.height appState
   \<and> minimapPosition (res_appState (actionToggleMinimap_perform elements appState))
     = minimapPosition appState
   \<and> AppState.more (res_appState (actionToggleMinimap_perform elements appState))
     = AppState.more appState
   \<and> res_appState (actionToggleMinimap_perform elements'
        (res_appState (actionToggleMinimap_perform elements appState))) = appState"
  by (simp add: actionToggleMinimap_perform_def actionToggleMinimap_checked_def)

section \<open>The debounce timer\<close>

lemma timer_inv_initial: "timer_inv (initialState, initialTimers)"
  by (simp add: timer_inv_def initialTimers_def)

lemma debouncedUpdate_arms:
  assumes "timer_inv (st, tm)"
  shows "\<exists>st' tm'. debouncedUpdate (st, tm) = (st', tm')
      \<and> pending tm' = [(nextHandle tm, now tm + DEBOUNCE_DELAY)]
      \<and> debounceTimerRef st' = Some (nextHandle tm)
      \<and> calls tm' = TimerSet (nextHandle tm) (now tm) # calls tm
      \<and> nextHandle tm' = nextHandle tm + 1 \<and> now tm' = now tm"
  using assms
  by (auto simp: timer_inv_def debouncedUpdate_def setTimeout_def clearTimeout_def Let_def
      split: option.splits)

lemma timer_inv_debouncedUpdate:
  assumes "timer_inv (st, tm)"
  shows "timer_inv (debouncedUpdate (st, tm))"
proof -
  from debouncedUpdate_arms [OF assms] obtain st' tm' where
    d: "debouncedUpdate (st, tm) = (st', tm')"
      "pending tm' = [(nextHandle tm, now tm + DEBOUNCE_DELAY)]"
      "debounceTimerRef st' = Some (nextHandle tm)"
      "calls tm' = TimerSet (nextHandle tm) (now tm) # calls tm"
      "nextHandle tm' = nextHandle tm + 1"
    by blast
  have "0 < nextHandle tm" and "debounced (calls tm)"
    using assms by (simp_all add: timer_inv_def)
  then show ?thesis
    unfolding d(1) using d(2-5) by (simp add: timer_inv_def)
qed

lemma timer_inv_minimapEffect:
  assumes "timer_inv (st, tm)"
  shows "timer_inv (minimapEffect elements appState (st, tm))"
proof (cases "showMinimap appState \<and> length elements > 0")
  case True
  then show ?thesis
    using timer_inv_debouncedUpdate [OF assms] by (simp add: minimapEffect_def)
next
  case False
  then show ?thesis
    using assms by (auto simp: minimapEffect_def timer_inv_def)
qed

lemma timer_inv_elapse:
  assumes "timer_inv (st, tm)"
  shows "timer_inv (st, elapse d tm)"
proof -
  from assms have n: "0 < nextHandle tm" and c: "debounced (calls tm)"
    by (simp_all add: timer_inv_def)
  from assms consider (idle) "pending tm = []"
    | (armed) h t cs where "pending tm = [(h, t + DEBOUNCE_DELAY)]"
        "debounceTimerRef st = Some h" "h \<noteq> 0" "calls tm = TimerSet h t # cs"
    by (auto simp: timer_inv_def)
  then show ?thesis
  proof cases
    case idle
    then show ?thesis using n c by (simp add: timer_inv_def elapse_def)
  next
    case armed
    show ?thesis
    proof (cases "t + DEBOUNCE_DELAY \<le> now tm + d")
      case True
      then show ?thesis
        using armed n c by (simp add: timer_inv_def elapse_def)
    next
      case False
      then show ?thesis
        using armed n c by (simp add: timer_inv_def elapse_def)
    qed
  qed
qed

lemma timer_inv_step: "timer_inv s \<Longrightarrow> timer_inv (step ev s)"
proof (cases ev)
  case (Change elements appState)
  assume "timer_inv s"
  then show ?thesis
    using Change timer_inv_minimapEffect [of "fst s" "snd s"] by simp
next
  case (Elapse d)
  assume "timer_inv s"
  then show ?thesis
    using Elapse timer_inv_elapse [of "fst s" "snd s"] by (cases s) simp
qed

lemma timer_inv_run: "timer_inv s \<Longrightarrow> timer_inv (run evs s)"
  unfolding run_def
  by (induction evs arbitrary: s) (simp_all add: timer_inv_step)

text \<open>
  C8, as amended: in every state the component reaches, at most one timer is pending and
  every run of the timer's callback comes \<open>DEBOUNCE_DELAY = 300\<close> milliseconds after the
  setting of that timer, no timer having been set in between. A change while the minimap
  is shown and the element collection is not empty cancels the pending timer and sets
  one, which is then the only pending timer.
\<close>

theorem debounce_single_timer:
  assumes "run evs (initialState, initialTimers) = (st, tm)"
  shows "length (pending tm) \<le> 1
      \<and> debounced (calls tm)
      \<and> DEBOUNCE_DELAY = 300
      \<and> (showMinimap appState \<and> elements \<noteq> [] \<longrightarrow>
           (\<exists>h. pending (snd (minimapEffect elements appState (st, tm)))
                  = [(h, now tm + DEBOUNCE_DELAY)]
              \<and> debounceTimerRef (fst (minimapEffect elements appState (st, tm))) = Some h
              \<and> calls (snd (minimapEffect elements appState (st, tm)))
                  = TimerSet h (now tm) # calls tm))"
proof -
  have inv: "timer_inv (st, tm)"
    using timer_inv_run [OF timer_inv_initial, of evs] assms by simp
  then have a: "length (pending tm) \<le> 1" and b: "debounced (calls tm)"
    by (auto simp: timer_inv_def)
  have c: "showMinimap appState \<and> elements \<noteq> [] \<longrightarrow>
           (\<exists>h. pending (snd (minimapEffect elements appState (st, tm)))
                  = [(h, now tm + DEBOUNCE_DELAY)]
              \<and> debounceTimerRef (fst (minimapEffect elements appState (st, tm))) = Some h
              \<and> calls (snd (minimapEffect elements appState (st, tm)))
                  = TimerSet h (now tm) # calls tm)"
    using debouncedUpdate_arms [OF inv] by (auto simp: minimapEffect_def)
  show ?thesis using a b c by (simp add: DEBOUNCE_DELAY_def)
qed

theorem debounce_single_timer_witness:
  "length (pending (snd (run [Change [()] exampleAppState, Elapse 100,
       Change [()] exampleAppState, Elapse 400] (initialState, initialTimers)))) \<le> 1
   \<and> debounced (calls (snd (run [Change [()] exampleAppState, Elapse 100,
       Change [()] exampleAppState, Elapse 400] (initialState, initialTimers))))
   \<and> (\<exists>h. pending (snd (minimapEffect [()] exampleAppState
         (run [Change [()] exampleAppState, Elapse 100,
            Change [()] exampleAppState, Elapse 400] (initialState, initialTimers))))
       = [(h, now (snd (run [Change [()] exampleAppState, Elapse 100,
            Change [()] exampleAppState, Elapse 400] (initialState, initialTimers)))
            + DEBOUNCE_DELAY)])"
  using debounce_single_timer [where
      evs = "[Change [()] exampleAppState, Elapse 100, Change [()] exampleAppState, Elapse 400]"
      and st = "fst (run [Change [()] exampleAppState, Elapse 100,
            Change [()] exampleAppState, Elapse 400] (initialState, initialTimers))"
      and tm = "snd (run [Change [()] exampleAppState, Elapse 100,
            Change [()] exampleAppState, Elapse 400] (initialState, initialTimers))"
      and appState = exampleAppState and elements = "[()]"]
  by (auto simp: exampleAppState_def)

text \<open>
  The claim as first stated fails: a change while the minimap is hidden sets no timer, and
  a change that empties the collection 100 milliseconds after a timer was set does not
  cancel it, so the callback runs 200 milliseconds after that change.
\<close>

theorem change_without_arming:
  "pending (snd (minimapEffect [()] (exampleAppState\<lparr>showMinimap := False\<rparr>)
      (initialState, initialTimers))) = []
   \<and> calls (snd (run [Change [()] exampleAppState, Elapse 100, Change [] exampleAppState,
        Elapse 200] (initialState, initialTimers))) = [TimerFired 1 300, TimerSet 1 0]"
  by (simp add: minimapEffect_def run_def debouncedUpdate_def setTimeout_def elapse_def
      initialState_def initialTimers_def exampleAppState_def DEBOUNCE_DELAY_def Let_def)

end
